theory Spec2Isabelle
  imports Main "HOL-Library.Word" "HOL-Library.AList"
begin

section \<open>JavaScript strings and the string methods the code calls\<close>

text \<open>
  A JavaScript string is a sequence of UTF-16 code units and \<open>length\<close> counts them.
  It is modelled as a \<open>string\<close>, one \<open>char\<close> per code unit. The code below only
  compares code units with ASCII characters, so a unit above 255 behaves like any other
  unit outside the character class.
\<close>

definition startsWith :: "string \<Rightarrow> string \<Rightarrow> bool" where
  "startsWith s p = (take (length p) s = p)"

definition endsWith :: "string \<Rightarrow> string \<Rightarrow> bool" where
  "endsWith s p = (length p \<le> length s \<and> drop (length s - length p) s = p)"

fun includes_str :: "string \<Rightarrow> string \<Rightarrow> bool" where
  "includes_str [] p = (p = [])"
| "includes_str (c # cs) p = (startsWith (c # cs) p \<or> includes_str cs p)"

text \<open>The character class \<open>[a-z0-9-]\<close>, by code unit.\<close>

definition name_char :: "char \<Rightarrow> bool" where
  "name_char c = (let k = (of_char c :: nat) in
      (97 \<le> k \<and> k \<le> 122) \<or> (48 \<le> k \<and> k \<le> 57) \<or> k = 45)"

text \<open>
  \<open>/^[a-z0-9-]+$/.test(name)\<close>: without the \<open>m\<close> flag the anchors are the two ends
  of the input, so the test holds when the input is one or more characters of the class.
\<close>

definition name_regex_test :: "string \<Rightarrow> bool" where
  "name_regex_test s = (s \<noteq> [] \<and> list_all name_char s)"


section \<open>The container name validator of the client\<close>

text \<open>
  \<open>validateContainerName\<close> of \<open>ContainerManager.tsx\<close>. It returns the reason as a
  string, and the empty string when the name is accepted. \<open>!name\<close> holds for the empty
  string only, the parameter being a string.
\<close>

definition validateContainerName :: "string \<Rightarrow> string" where
  "validateContainerName name =
     (if name = [] then ''Container name is required''
      else if length name < 3 \<or> length name > 63 then
        ''Container name must be between 3 and 63 characters''
      else if \<not> name_regex_test name then
        ''Container name must contain only lowercase letters, numbers, and hyphens''
      else if startsWith name ''-'' \<or> endsWith name ''-'' then
        ''Container name cannot start or end with a hyphen''
      else if includes_str name ''--'' then
        ''Container name cannot contain consecutive hyphens''
      else [])"

subsection \<open>The rules as the specification words them\<close>

datatype rule = Empty | Length | Charset | EdgeHyphen | DoubleHyphen

text \<open>What it means for a name to violate a rule, following the words of the contract.\<close>

fun violates :: "rule \<Rightarrow> string \<Rightarrow> bool" where
  "violates Empty n = (n = [])"
| "violates Length n = (length n < 3 \<or> 63 < length n)"
| "violates Charset n = (\<exists>c \<in> set n. \<not> name_char c)"
| "violates EdgeHyphen n = (n \<noteq> [] \<and> (hd n = CHR ''-'' \<or> last n = CHR ''-''))"
| "violates DoubleHyphen n =
     (\<exists>i \<in> set [0 ..< length n - 1]. n ! i = CHR ''-'' \<and> n ! Suc i = CHR ''-'')"

definition rules_in_order :: "rule list" where
  "rules_in_order = [Empty, Length, Charset, EdgeHyphen, DoubleHyphen]"

definition violated :: "string \<Rightarrow> rule list" where
  "violated n = filter (\<lambda>r. violates r n) rules_in_order"

fun reason :: "rule \<Rightarrow> string" where
  "reason Empty = ''Container name is required''"
| "reason Length = ''Container name must be between 3 and 63 characters''"
| "reason Charset =
     ''Container name must contain only lowercase letters, numbers, and hyphens''"
| "reason EdgeHyphen = ''Container name cannot start or end with a hyphen''"
| "reason DoubleHyphen = ''Container name cannot contain consecutive hyphens''"

text \<open>
  A string matching \<open>^[a-z0-9-]{3,63}$\<close> with no hyphen at either end and no two
  hyphens in a row: the container names of the data model.
\<close>

definition valid_container_name :: "string \<Rightarrow> bool" where
  "valid_container_name n =
     (3 \<le> length n \<and> length n \<le> 63 \<and> (\<forall>c \<in> set n. name_char c)
      \<and> hd n \<noteq> CHR ''-'' \<and> last n \<noteq> CHR ''-''
      \<and> (\<forall>i \<in> set [0 ..< length n - 1]. \<not> (n ! i = CHR ''-'' \<and> n ! Suc i = CHR ''-'')))"


section \<open>Values of the server: JSON, responses, errors\<close>

type_synonym byte = "8 word"

datatype json =
    JString string
  | JNumber nat
  | JArray "json list"
  | JObject "(string \<times> json) list"

text \<open>The value of a key of a JSON object, if the value is an object with that key.\<close>

fun field :: "string \<Rightarrow> json \<Rightarrow> json option" where
  "field k (JObject kvs) = map_of kvs k"
| "field k _ = None"

fun keys :: "json \<Rightarrow> string list" where
  "keys (JObject kvs) = map fst kvs"
| "keys _ = []"

text \<open>
  What a handler sends: \<open>res.json(v)\<close> is status 200, \<open>res.status(n).json(v)\<close>
  is status \<open>n\<close>.
\<close>

record response =
  res_status :: nat
  res_body :: json

definition res_json :: "json \<Rightarrow> response" where
  "res_json v = \<lparr>res_status = 200, res_body = v\<rparr>"

definition res_status_json :: "nat \<Rightarrow> json \<Rightarrow> response" where
  "res_status_json n v = \<lparr>res_status = n, res_body = v\<rparr>"

definition error_body :: "string \<Rightarrow> json" where
  "error_body msg = JObject [(''error'', JString msg)]"

text \<open>
  The exceptions that reach the handlers: a plain \<open>Error\<close> with its message, a
  \<open>MulterError\<close> with its code, and the storage SDK's \<open>RestError\<close> with the HTTP status
  of the service's answer (none when the service could not be reached).
\<close>

datatype js_error = Error string | MulterError string | RestError "nat option"

fun statusCode :: "js_error \<Rightarrow> nat option" where
  "statusCode (RestError c) = c"
| "statusCode _ = None"

text \<open>\<open>Number.prototype.toString\<close> on a non-negative integer: its decimal digits.\<close>

fun toString :: "nat \<Rightarrow> string" where
  "toString n =
     (if n < 10 then [''0123456789'' ! n]
      else toString (n div 10) @ [''0123456789'' ! (n mod 10)])"

declare toString.simps [simp del]

text \<open>\<open>a || b\<close> on an optional string: \<open>undefined\<close> and the empty string are falsy.\<close>

fun or_else :: "string option \<Rightarrow> string \<Rightarrow> string" where
  "or_else None b = b"
| "or_else (Some a) b = (if a = [] then b else a)"


section \<open>The blob service the server talks to\<close>

text \<open>
  The storage service is outside the repository. It is modelled as an in-memory double
  that records every call made against it:
  \<^item> a call fails with a \<open>RestError\<close> without status when the service is not reachable;
  \<^item> the service refuses a container name that is not a name of the data model
    (status 400), the behaviour the create handler relies on;
  \<^item> creating a container that exists is a conflict (409), and creating it only if
    absent then succeeds without a change;
  \<^item> a call on a missing container or a missing blob is not-found (404);
  \<^item> a listing enumerates the blobs in the order the double holds them; no property
    below depends on that order.
\<close>

record blob =
  blob_name :: string
  blob_data :: "byte list"
  blob_contentType :: string
  blob_metadata :: "(string \<times> string) list option"
  blob_lastModified :: string

record container =
  container_access :: string
  container_blobs :: "blob list"

datatype storage_call =
    Create string string
  | CreateIfNotExists string string
  | UploadData string string
  | DeleteBlob string string
  | ListBlobsFlat string

record blob_service =
  online :: bool
  account_url :: string
  containers :: "(string \<times> container) list"
  calls :: "storage_call list"

definition log_call :: "storage_call \<Rightarrow> blob_service \<Rightarrow> blob_service" where
  "log_call c s = s\<lparr>calls := calls s @ [c]\<rparr>"

definition new_container :: "string \<Rightarrow> container" where
  "new_container access = \<lparr>container_access = access, container_blobs = []\<rparr>"

definition container_create ::
  "string \<Rightarrow> string \<Rightarrow> blob_service \<Rightarrow> (js_error + unit) \<times> blob_service" where
  "container_create cname access s0 =
     (let s = log_call (Create cname access) s0 in
      if \<not> online s then (Inl (RestError None), s)
      else if \<not> valid_container_name cname then (Inl (RestError (Some 400)), s)
      else if map_of (containers s) cname \<noteq> None then (Inl (RestError (Some 409)), s)
      else (Inr (), s\<lparr>containers := containers s @ [(cname, new_container access)]\<rparr>))"

definition container_createIfNotExists ::
  "string \<Rightarrow> string \<Rightarrow> blob_service \<Rightarrow> (js_error + unit) \<times> blob_service" where
  "container_createIfNotExists cname access s0 =
     (let s = log_call (CreateIfNotExists cname access) s0 in
      if \<not> online s then (Inl (RestError None), s)
      else if \<not> valid_container_name cname then (Inl (RestError (Some 400)), s)
      else if map_of (containers s) cname \<noteq> None then (Inr (), s)
      else (Inr (), s\<lparr>containers := containers s @ [(cname, new_container access)]\<rparr>))"

definition put_blob :: "blob \<Rightarrow> blob list \<Rightarrow> blob list" where
  "put_blob b bs = filter (\<lambda>x. blob_name x \<noteq> blob_name b) bs @ [b]"

definition blob_uploadData ::
  "string \<Rightarrow> blob \<Rightarrow> blob_service \<Rightarrow> (js_error + unit) \<times> blob_service" where
  "blob_uploadData cname b s0 =
     (let s = log_call (UploadData cname (blob_name b)) s0 in
      if \<not> online s then (Inl (RestError None), s)
      else case map_of (containers s) cname of
        None \<Rightarrow> (Inl (RestError (Some 404)), s)
      | Some c \<Rightarrow>
          (Inr (), s\<lparr>containers := AList.update cname
             (c\<lparr>container_blobs := put_blob b (container_blobs c)\<rparr>) (containers s)\<rparr>))"

definition blob_delete ::
  "string \<Rightarrow> string \<Rightarrow> blob_service \<Rightarrow> (js_error + unit) \<times> blob_service" where
  "blob_delete cname bname s0 =
     (let s = log_call (DeleteBlob cname bname) s0 in
      if \<not> online s then (Inl (RestError None), s)
      else case map_of (containers s) cname of
        None \<Rightarrow> (Inl (RestError (Some 404)), s)
      | Some c \<Rightarrow>
          if bname \<notin> blob_name ` set (container_blobs c) then (Inl (RestError (Some 404)), s)
          else (Inr (), s\<lparr>containers := AList.update cname
             (c\<lparr>container_blobs := filter (\<lambda>x. blob_name x \<noteq> bname) (container_blobs c)\<rparr>)
             (containers s)\<rparr>))"

definition container_listBlobsFlat ::
  "string \<Rightarrow> blob_service \<Rightarrow> (js_error + blob list) \<times> blob_service" where
  "container_listBlobsFlat cname s0 =
     (let s = log_call (ListBlobsFlat cname) s0 in
      if \<not> online s then (Inl (RestError None), s)
      else case map_of (containers s) cname of
        None \<Rightarrow> (Inl (RestError (Some 404)), s)
      | Some c \<Rightarrow> (Inr (container_blobs c), s))"

text \<open>
  The URLs of the SDK's clients. The SDK percent-encodes the names it appends; the model
  appends them as they are, and no property below reads the text of a URL.
\<close>

definition container_url :: "blob_service \<Rightarrow> string \<Rightarrow> string" where
  "container_url s cname = account_url s @ ''/'' @ cname"

definition blob_url :: "blob_service \<Rightarrow> string \<Rightarrow> string \<Rightarrow> string" where
  "blob_url s cname bname = container_url s cname @ ''/'' @ bname"


section \<open>The server: \<open>server/index.js\<close>\<close>

text \<open>
  What a request runs against: the environment variable
  \<open>AZURE_STORAGE_CONNECTION_STRING\<close>, the blob service, and the installed upload
  library. A configured connection string is taken to be well formed. The rate limiter
  and the security middleware in front of the routes are configuration and are not part
  of the model: the properties below are about requests that they let through.

  The repository fixes no version of the upload library, and the versions differ on a
  file of exactly \<open>limits.fileSize\<close> bytes: the 1.x line raises \<open>LIMIT_FILE_SIZE\<close> as
  soon as the size reaches the limit, the 2.x line only when the size exceeds it.
  \<open>limit_at_size\<close> says which one is installed: it holds when a file of exactly the limit
  is refused. A larger file is refused by both, a smaller one by neither.
\<close>

record world =
  connection_string :: "string option"
  limit_at_size :: bool
  service :: blob_service

subsection \<open>The upload middleware\<close>

text \<open>A file part of a multipart request: its file name, its declared type, its bytes.\<close>

datatype file_part = FilePart string string "byte list"

text \<open>The file object that the upload middleware hands to the handler as \<open>req.file\<close>.\<close>

record multer_file =
  originalname :: string
  mimetype :: string
  buffer :: "byte list"
  size_bytes :: nat

definition fileSize :: nat where
  "fileSize = 100 * 1024 * 1024"

definition allowedTypes :: "string list" where
  "allowedTypes =
     [''application/pdf'',
      ''application/msword'',
      ''application/vnd.openxmlformats-officedocument.wordprocessingml.document'',
      ''application/vnd.ms-excel'',
      ''application/vnd.openxmlformats-officedocument.spreadsheetml.sheet'',
      ''application/vnd.ms-powerpoint'',
      ''application/vnd.openxmlformats-officedocument.presentationml.presentation'',
      ''text/plain'',
      ''image/jpeg'',
      ''image/png'',
      ''image/gif'']"

text \<open>\<open>fileFilter\<close>: the callback's arguments, an error or whether to take the file.\<close>

definition fileFilter :: "string \<Rightarrow> js_error + bool" where
  "fileFilter mime =
     (if mime \<in> set allowedTypes then Inr True
      else Inl (Error ''File type not supported''))"

text \<open>
  Whether the library raises \<open>LIMIT_FILE_SIZE\<close> for a file of \<open>n\<close> bytes, given whether
  it refuses a file of exactly the limit.
\<close>

definition limit_reached :: "bool \<Rightarrow> nat \<Rightarrow> bool" where
  "limit_reached at_size n = (if at_size then n \<ge> fileSize else n > fileSize)"

text \<open>
  \<open>upload.single('file')\<close> with memory storage. The middleware calls the filter when the
  part starts, then reads the bytes and fails with \<open>LIMIT_FILE_SIZE\<close> when the library's
  limit is reached; in memory storage the file's size is the length of its buffer. An
  error goes to the error handling middleware and the route's handler does not run.
\<close>

definition upload_single :: "bool \<Rightarrow> file_part option \<Rightarrow> js_error + multer_file option" where
  "upload_single at_size part =
     (case part of
        None \<Rightarrow> Inr None
      | Some (FilePart fname mime bytes) \<Rightarrow>
          (case fileFilter mime of
             Inl e \<Rightarrow> Inl e
           | Inr False \<Rightarrow> Inr None
           | Inr True \<Rightarrow>
               if limit_reached at_size (length bytes)
               then Inl (MulterError ''LIMIT_FILE_SIZE'')
               else Inr (Some \<lparr>originalname = fname, mimetype = mime, buffer = bytes,
                                size_bytes = length bytes\<rparr>)))"

text \<open>The error handling middleware at the end of \<open>index.js\<close>.\<close>

definition error_middleware :: "js_error \<Rightarrow> response" where
  "error_middleware e =
     (case e of
        MulterError code \<Rightarrow>
          if code = ''LIMIT_FILE_SIZE''
          then res_status_json 400 (error_body ''File too large. Maximum size is 100MB.'')
          else res_status_json 500 (error_body ''Internal server error'')
      | _ \<Rightarrow> res_status_json 500 (error_body ''Internal server error''))"

subsection \<open>The storage clients\<close>

definition getBlobServiceClient :: "world \<Rightarrow> js_error + unit" where
  "getBlobServiceClient w =
     (case connection_string w of
        None \<Rightarrow> Inl (Error ''Azure Storage connection string not found'')
      | Some cs \<Rightarrow>
          if cs = [] then Inl (Error ''Azure Storage connection string not found'')
          else Inr ())"

text \<open>\<open>getContainerClient\<close>: the client of a container, created if it does not exist.\<close>

definition getContainerClient :: "string \<Rightarrow> world \<Rightarrow> (js_error + string) \<times> world" where
  "getContainerClient containerName w =
     (case getBlobServiceClient w of
        Inl e \<Rightarrow> (Inl e, w)
      | Inr _ \<Rightarrow>
          (case container_createIfNotExists containerName ''blob'' (service w) of
             (Inl e, s) \<Rightarrow> (Inl e, w\<lparr>service := s\<rparr>)
           | (Inr _, s) \<Rightarrow> (Inr containerName, w\<lparr>service := s\<rparr>)))"

subsection \<open>The route handlers\<close>

text \<open>
  \<open>POST /api/containers\<close>. The body's \<open>name\<close> is a string or is missing.
\<close>

definition create_catch :: "js_error \<Rightarrow> response" where
  "create_catch e =
     (if statusCode e = Some 409
      then res_status_json 409 (error_body ''Container already exists'')
      else res_status_json 500 (error_body ''Failed to create container''))"

definition post_api_containers :: "string option \<Rightarrow> world \<Rightarrow> response \<times> world" where
  "post_api_containers body_name w =
     (case body_name of
        None \<Rightarrow>
          (res_status_json 400 (error_body
             ''Container name must contain only lowercase letters, numbers, and hyphens''), w)
      | Some name \<Rightarrow>
          if name = [] \<or> \<not> name_regex_test name then
            (res_status_json 400 (error_body
               ''Container name must contain only lowercase letters, numbers, and hyphens''), w)
          else
            (case getBlobServiceClient w of
               Inl e \<Rightarrow> (create_catch e, w)
             | Inr _ \<Rightarrow>
                 (case container_create name ''blob'' (service w) of
                    (Inl e, s) \<Rightarrow> (create_catch e, w\<lparr>service := s\<rparr>)
                  | (Inr _, s) \<Rightarrow>
                      (res_json (JObject [(''message'', JString ''Container created successfully''),
                                          (''name'', JString name)]),
                       w\<lparr>service := s\<rparr>))))"

text \<open>
  \<open>POST /api/upload/:containerName\<close>: the handler, then the route with the upload
  middleware in front. \<open>uuid\<close> is the value of \<open>uuidv4()\<close> and \<open>now\<close> the value of
  \<open>new Date().toISOString()\<close> for this request. The handler's \<open>fileExtension\<close> is
  computed and never read, and is left out.
\<close>

definition upload_handler ::
  "string \<Rightarrow> string \<Rightarrow> string \<Rightarrow> multer_file option \<Rightarrow> world \<Rightarrow> response \<times> world" where
  "upload_handler uuid now containerName req_file w =
     (case req_file of
        None \<Rightarrow> (res_status_json 400 (error_body ''No file uploaded''), w)
      | Some f \<Rightarrow>
          (let uniqueFilename = uuid @ ''-'' @ originalname f in
           case getContainerClient containerName w of
             (Inl e, w1) \<Rightarrow> (res_status_json 500 (error_body ''Failed to upload file''), w1)
           | (Inr cc, w1) \<Rightarrow>
               (case blob_uploadData cc
                       \<lparr>blob_name = uniqueFilename, blob_data = buffer f,
                        blob_contentType = mimetype f,
                        blob_metadata = Some [(''originalName'', originalname f),
                                              (''uploadDate'', now),
                                              (''fileSize'', toString (size_bytes f))],
                        blob_lastModified = now\<rparr>
                       (service w1) of
                  (Inl e, s) \<Rightarrow>
                    (res_status_json 500 (error_body ''Failed to upload file''),
                     w1\<lparr>service := s\<rparr>)
                | (Inr _, s) \<Rightarrow>
                    (res_json (JObject
                       [(''message'', JString ''File uploaded successfully''),
                        (''filename'', JString uniqueFilename),
                        (''originalName'', JString (originalname f)),
                        (''url'', JString (blob_url s cc uniqueFilename)),
                        (''size'', JNumber (size_bytes f)),
                        (''container'', JString containerName)]),
                     w1\<lparr>service := s\<rparr>))))"

definition post_api_upload ::
  "string \<Rightarrow> string \<Rightarrow> string \<Rightarrow> file_part option \<Rightarrow> world \<Rightarrow> response \<times> world" where
  "post_api_upload uuid now containerName part w =
     (case upload_single (limit_at_size w) part of
        Inl e \<Rightarrow> (error_middleware e, w)
      | Inr req_file \<Rightarrow> upload_handler uuid now containerName req_file w)"

text \<open>\<open>GET /api/containers/:containerName/files\<close>.\<close>

definition originalName_tag :: "blob \<Rightarrow> string option" where
  "originalName_tag b =
     (case blob_metadata b of None \<Rightarrow> None | Some m \<Rightarrow> map_of m ''originalName'')"

definition file_entry :: "string \<Rightarrow> blob \<Rightarrow> json" where
  "file_entry url b =
     JObject [(''name'', JString (blob_name b)),
              (''originalName'', JString (or_else (originalName_tag b) (blob_name b))),
              (''lastModified'', JString (blob_lastModified b)),
              (''size'', JNumber (length (blob_data b))),
              (''contentType'', JString (blob_contentType b)),
              (''url'', JString (url @ ''/'' @ blob_name b))]"

definition get_api_container_files :: "string \<Rightarrow> world \<Rightarrow> response \<times> world" where
  "get_api_container_files containerName w =
     (case getContainerClient containerName w of
        (Inl e, w1) \<Rightarrow> (res_status_json 500 (error_body ''Failed to fetch files''), w1)
      | (Inr cc, w1) \<Rightarrow>
          (case container_listBlobsFlat cc (service w1) of
             (Inl e, s) \<Rightarrow>
               (res_status_json 500 (error_body ''Failed to fetch files''), w1\<lparr>service := s\<rparr>)
           | (Inr blobs, s) \<Rightarrow>
               (res_json (JArray (map (file_entry (container_url s cc)) blobs)),
                w1\<lparr>service := s\<rparr>)))"

text \<open>\<open>DELETE /api/containers/:containerName/files/:filename\<close>.\<close>

definition delete_api_container_file :: "string \<Rightarrow> string \<Rightarrow> world \<Rightarrow> response \<times> world" where
  "delete_api_container_file containerName filename w =
     (case getContainerClient containerName w of
        (Inl e, w1) \<Rightarrow> (res_status_json 500 (error_body ''Failed to delete file''), w1)
      | (Inr cc, w1) \<Rightarrow>
          (case blob_delete cc filename (service w1) of
             (Inl e, s) \<Rightarrow>
               (res_status_json 500 (error_body ''Failed to delete file''), w1\<lparr>service := s\<rparr>)
           | (Inr _, s) \<Rightarrow>
               (res_json (JObject [(''message'', JString ''File deleted successfully'')]),
                w1\<lparr>service := s\<rparr>)))"

text \<open>\<open>GET /api/health\<close>.\<close>

definition get_api_health :: "string \<Rightarrow> world \<Rightarrow> response \<times> world" where
  "get_api_health now w =
     (res_json (JObject [(''status'', JString ''OK''), (''timestamp'', JString now)]), w)"

subsection \<open>Vocabulary of the properties\<close>

text \<open>A reachable storage backend: the connection is configured and the service answers.\<close>

definition reachable :: "world \<Rightarrow> bool" where
  "reachable w =
     (connection_string w \<noteq> None \<and> connection_string w \<noteq> Some [] \<and> online (service w))"

text \<open>The container of a name, if the service holds one.\<close>

definition container_of :: "world \<Rightarrow> string \<Rightarrow> container option" where
  "container_of w cname = map_of (containers (service w)) cname"

text \<open>The containers that the service holds have names of the data model.\<close>

definition names_valid :: "blob_service \<Rightarrow> bool" where
  "names_valid s = (\<forall>n \<in> fst ` set (containers s). valid_container_name n)"

text \<open>A world for examples: a reachable service holding one container with one blob.\<close>

definition example_blob :: blob where
  "example_blob =
     \<lparr>blob_name = ''1f0e-report.pdf'', blob_data = [37, 80, 68, 70],
      blob_contentType = ''application/pdf'',
      blob_metadata = Some [(''originalName'', ''report.pdf'')],
      blob_lastModified = ''2024-01-01T00:00:00.000Z''\<rparr>"

definition example_world :: world where
  "example_world =
     \<lparr>connection_string = Some ''UseDevelopmentStorage=true'',
      limit_at_size = True,
      service = \<lparr>online = True, account_url = ''http://127.0.0.1:10000/devstoreaccount1'',
                 containers = [(''test-docs'',
                    \<lparr>container_access = ''blob'', container_blobs = [example_blob]\<rparr>)],
                 calls = []\<rparr>\<rparr>"


text \<open>The same world with an upload library that accepts a file of exactly the limit.\<close>

definition example_world_lenient :: world where
  "example_world_lenient = example_world\<lparr>limit_at_size := False\<rparr>"

text \<open>Whether a container of the service holds a blob of a name.\<close>

definition blob_exists :: "world \<Rightarrow> string \<Rightarrow> string \<Rightarrow> bool" where
  "blob_exists w c f =
     (case container_of w c of None \<Rightarrow> False
      | Some ct \<Rightarrow> f \<in> blob_name ` set (container_blobs ct))"

text \<open>A world whose only blob carries an \<open>originalName\<close> tag with the empty string.\<close>

definition empty_tag_blob :: blob where
  "empty_tag_blob =
     \<lparr>blob_name = ''9c2b-notes.txt'', blob_data = [104, 105],
      blob_contentType = ''text/plain'',
      blob_metadata = Some [(''originalName'', [])],
      blob_lastModified = ''2024-01-02T00:00:00.000Z''\<rparr>"

definition empty_tag_world :: world where
  "empty_tag_world =
     \<lparr>connection_string = Some ''UseDevelopmentStorage=true'',
      limit_at_size = True,
      service = \<lparr>online = True, account_url = ''http://127.0.0.1:10000/devstoreaccount1'',
                 containers = [(''test-docs'',
                    \<lparr>container_access = ''blob'', container_blobs = [empty_tag_blob]\<rparr>)],
                 calls = []\<rparr>\<rparr>"


section \<open>The name validator meets its contract\<close>

lemma startsWith_hyphen: "startsWith n ''-'' \<longleftrightarrow> (n \<noteq> [] \<and> hd n = CHR ''-'')"
  by (cases n) (auto simp: startsWith_def)

lemma endsWith_hyphen: "endsWith n ''-'' \<longleftrightarrow> (n \<noteq> [] \<and> last n = CHR ''-'')"
proof (cases n rule: rev_cases)
  case Nil
  then show ?thesis by (simp add: endsWith_def)
next
  case (snoc ys y)
  then show ?thesis by (auto simp: endsWith_def)
qed

lemma startsWith_double:
  "startsWith (c # cs) ''--'' \<longleftrightarrow> (cs \<noteq> [] \<and> c = CHR ''-'' \<and> cs ! 0 = CHR ''-'')"
  by (cases cs) (auto simp: startsWith_def)

lemma includes_str_double:
  "includes_str n ''--'' \<longleftrightarrow>
     (\<exists>i. Suc i < length n \<and> n ! i = CHR ''-'' \<and> n ! Suc i = CHR ''-'')"
proof (induction n)
  case Nil
  then show ?case by simp
next
  case (Cons c cs)
  let ?P = "\<lambda>xs i. Suc i < length xs \<and> xs ! i = CHR ''-'' \<and> xs ! Suc i = CHR ''-''"
  show ?case
  proof
    assume "includes_str (c # cs) ''--''"
    then consider "startsWith (c # cs) ''--''" | "includes_str cs ''--''" by auto
    then show "\<exists>i. ?P (c # cs) i"
    proof cases
      case 1
      then have "?P (c # cs) 0" by (auto simp: startsWith_double)
      then show ?thesis by blast
    next
      case 2
      with Cons.IH obtain i where "?P cs i" by blast
      then have "?P (c # cs) (Suc i)" by simp
      then show ?thesis by blast
    qed
  next
    assume "\<exists>i. ?P (c # cs) i"
    then obtain i where i: "?P (c # cs) i" by blast
    show "includes_str (c # cs) ''--''"
    proof (cases i)
      case 0
      with i show ?thesis by (auto simp: startsWith_double)
    next
      case (Suc j)
      with i have "?P cs j" by simp
      with Cons.IH have "includes_str cs ''--''" by blast
      then show ?thesis by simp
    qed
  qed
qed

lemma violates_double: "violates DoubleHyphen n \<longleftrightarrow> includes_str n ''--''"
  unfolding includes_str_double by (auto simp: less_diff_conv)

lemma regex_charset: "n \<noteq> [] \<Longrightarrow> name_regex_test n \<longleftrightarrow> \<not> violates Charset n"
  by (auto simp: name_regex_test_def list_all_iff)

lemma validate_first_violated:
  "validateContainerName n = (case violated n of [] \<Rightarrow> [] | r # _ \<Rightarrow> reason r)"
  by (simp add: validateContainerName_def violated_def rules_in_order_def regex_charset
      startsWith_hyphen endsWith_hyphen violates_double [symmetric] del: violates.simps(5))

lemma valid_iff_none_violated: "valid_container_name n \<longleftrightarrow> violated n = []"
  by (auto simp: valid_container_name_def violated_def rules_in_order_def)

lemma example_name_valid: "valid_container_name ''test-docs''"
  by (simp add: valid_container_name_def name_char_def)

text \<open>
  Claim C1. The validator accepts every name matching \<open>^[a-z0-9-]{3,63}$\<close> that has no
  hyphen at either end and no two hyphens in a row; for a name that violates exactly one
  rule it returns the reason of that rule; and in general the rules are taken in the order
  empty, length, character set, edge hyphen, double hyphen, the first one violated giving
  the reason (and no reason, the empty string, when none is violated).
\<close>

theorem validateContainerName_contract:
  "(valid_container_name n \<longrightarrow> validateContainerName n = [])
   \<and> (\<forall>r. violated n = [r] \<longrightarrow> validateContainerName n = reason r)
   \<and> validateContainerName n = (case violated n of [] \<Rightarrow> [] | r # _ \<Rightarrow> reason r)"
  by (simp add: validate_first_violated valid_iff_none_violated)

theorem validateContainerName_contract_witness:
  "valid_container_name ''test-docs'' \<and> validateContainerName ''test-docs'' = []
   \<and> violated ''a--b'' = [DoubleHyphen]
   \<and> validateContainerName ''a--b'' = ''Container name cannot contain consecutive hyphens''
   \<and> violated ''Abc'' = [Charset]
   \<and> validateContainerName ''Abc'' =
       ''Container name must contain only lowercase letters, numbers, and hyphens''"
proof -
  have v: "valid_container_name ''test-docs''" by (rule example_name_valid)
  have d: "violated ''a--b'' = [DoubleHyphen]"
    by (simp add: violated_def rules_in_order_def name_char_def)
  have c: "violated ''Abc'' = [Charset]"
    by (simp add: violated_def rules_in_order_def name_char_def)
  from validateContainerName_contract [of "''test-docs''"] v
  have 1: "validateContainerName ''test-docs'' = []" by blast
  from validateContainerName_contract [of "''a--b''"] d
  have 2: "validateContainerName ''a--b'' = reason DoubleHyphen" by blast
  from validateContainerName_contract [of "''Abc''"] c
  have 3: "validateContainerName ''Abc'' = reason Charset" by blast
  from v d c 1 2 3 show ?thesis by simp
qed

section \<open>Facts about the upload limit\<close>

lemma limit_reached_over: "fileSize < n \<Longrightarrow> limit_reached a n"
  by (simp add: limit_reached_def)

lemma limit_reached_under: "n < fileSize \<Longrightarrow> \<not> limit_reached a n"
  by (simp add: limit_reached_def)

lemma limit_reached_at: "limit_reached a fileSize = a"
  by (simp add: limit_reached_def)


section \<open>Facts about the storage clients\<close>

lemma valid_name_passes_guard:
  "valid_container_name n \<Longrightarrow> n \<noteq> [] \<and> name_regex_test n"
  by (auto simp: valid_container_name_def name_regex_test_def list_all_iff)

lemma guard_rejects_iff:
  "(n = [] \<or> \<not> name_regex_test n) \<longleftrightarrow> (violates Empty n \<or> violates Charset n)"
  by (auto simp: name_regex_test_def list_all_iff)

lemma getBlobServiceClient_reachable: "reachable w \<Longrightarrow> getBlobServiceClient w = Inr ()"
  by (auto simp: reachable_def getBlobServiceClient_def split: option.splits)

lemma map_of_snoc_missing: "map_of al c = None \<Longrightarrow> map_of (al @ [(c, v)]) c = Some v"
  by (simp add: map_add_def)

lemma getContainerClient_existing:
  assumes "reachable w" "valid_container_name c" "container_of w c = Some ct"
  shows "getContainerClient c w =
           (Inr c, w\<lparr>service := log_call (CreateIfNotExists c ''blob'') (service w)\<rparr>)"
  using assms
  by (simp add: getContainerClient_def getBlobServiceClient_reachable
      container_createIfNotExists_def Let_def container_of_def log_call_def reachable_def)

lemma getContainerClient_missing:
  assumes "reachable w" "valid_container_name c" "container_of w c = None"
  shows "getContainerClient c w =
           (Inr c, w\<lparr>service := (log_call (CreateIfNotExists c ''blob'') (service w))
              \<lparr>containers := containers (service w) @ [(c, new_container ''blob'')]\<rparr>\<rparr>)"
  using assms
  by (simp add: getContainerClient_def getBlobServiceClient_reachable
      container_createIfNotExists_def Let_def container_of_def log_call_def reachable_def)

text \<open>What the client of a container gives in general: an error, or the container exists.\<close>

lemma getContainerClient_cases:
  "getContainerClient c w = (r, w1) \<Longrightarrow>
     (\<exists>e. r = Inl e) \<or>
     (r = Inr c \<and> online (service w1) \<and>
      container_of w1 c = (case container_of w c of None \<Rightarrow> Some (new_container ''blob'')
                                                   | Some ct \<Rightarrow> Some ct))"
  by (auto simp: getContainerClient_def container_createIfNotExists_def Let_def log_call_def
      container_of_def map_of_snoc_missing
      split: sum.splits if_splits option.splits simp del: map_of_append)

subsection \<open>The names of the containers stay valid\<close>

lemma update_same_keys:
  assumes "map_of al n = Some x"
  shows "fst ` set (AList.update n v al) = fst ` set al"
proof -
  from assms have "(n, x) \<in> set al" by (rule map_of_SomeD)
  then have "n \<in> fst ` set al" by force
  then show ?thesis by (auto simp: dom_update)
qed

lemma names_valid_same_keys:
  "fst ` set (containers s') = fst ` set (containers s) \<Longrightarrow> names_valid s' = names_valid s"
  by (simp only: names_valid_def)

lemma names_valid_create:
  "container_create n a s = (r, s') \<Longrightarrow> names_valid s \<Longrightarrow> names_valid s'"
  by (auto simp: names_valid_def container_create_def Let_def log_call_def split: if_splits)

lemma names_valid_createIfNotExists:
  "container_createIfNotExists n a s = (r, s') \<Longrightarrow> names_valid s \<Longrightarrow> names_valid s'"
  by (auto simp: names_valid_def container_createIfNotExists_def Let_def log_call_def
      split: if_splits)

lemma names_valid_calls: "names_valid (s\<lparr>calls := cs\<rparr>) = names_valid s"
  by (simp add: names_valid_def)

lemma uploadData_keys:
  "fst ` set (containers (snd (blob_uploadData n b s))) = fst ` set (containers s)"
  by (cases "map_of (containers s) n")
     (simp_all add: blob_uploadData_def Let_def log_call_def update_same_keys)

lemma delete_keys:
  "fst ` set (containers (snd (blob_delete n b s))) = fst ` set (containers s)"
  by (cases "map_of (containers s) n")
     (simp_all add: blob_delete_def Let_def log_call_def update_same_keys)

lemma names_valid_uploadData:
  "blob_uploadData n b s = (r, s') \<Longrightarrow> names_valid s \<Longrightarrow> names_valid s'"
  using names_valid_same_keys [OF uploadData_keys, of n b s] by simp

lemma names_valid_delete:
  "blob_delete n b s = (r, s') \<Longrightarrow> names_valid s \<Longrightarrow> names_valid s'"
  using names_valid_same_keys [OF delete_keys, of n b s] by simp

lemma names_valid_listBlobsFlat:
  "container_listBlobsFlat n s = (r, s') \<Longrightarrow> names_valid s \<Longrightarrow> names_valid s'"
  by (auto simp: container_listBlobsFlat_def Let_def log_call_def names_valid_calls
      split: if_splits option.splits)

lemma names_valid_getContainerClient:
  "getContainerClient n w = (r, w') \<Longrightarrow> names_valid (service w) \<Longrightarrow> names_valid (service w')"
  by (auto simp: getContainerClient_def split: sum.splits prod.splits
      dest: names_valid_createIfNotExists)

text \<open>Every route keeps the names of the containers valid.\<close>

lemma names_valid_post_api_containers:
  "names_valid (service w) \<Longrightarrow> names_valid (service (snd (post_api_containers b w)))"
  by (auto simp: post_api_containers_def split: option.splits sum.splits prod.splits
      dest: names_valid_create)

lemma names_valid_post_api_upload:
  "names_valid (service w) \<Longrightarrow> names_valid (service (snd (post_api_upload u t n p w)))"
  by (auto simp: post_api_upload_def upload_handler_def Let_def
      split: option.splits sum.splits prod.splits
      dest!: names_valid_getContainerClient dest: names_valid_uploadData)

lemma names_valid_get_api_container_files:
  "names_valid (service w) \<Longrightarrow> names_valid (service (snd (get_api_container_files n w)))"
  by (auto simp: get_api_container_files_def split: sum.splits prod.splits
      dest!: names_valid_getContainerClient dest: names_valid_listBlobsFlat)

lemma names_valid_delete_api_container_file:
  "names_valid (service w) \<Longrightarrow> names_valid (service (snd (delete_api_container_file n f w)))"
  by (auto simp: delete_api_container_file_def split: sum.splits prod.splits
      dest!: names_valid_getContainerClient dest: names_valid_delete)

subsection \<open>The example world\<close>

lemma example_reachable: "reachable example_world"
  by (simp add: reachable_def example_world_def)

lemma example_names_valid: "names_valid (service example_world)"
  by (simp add: names_valid_def example_world_def example_name_valid)

lemma example_container:
  "container_of example_world ''test-docs'' =
     Some \<lparr>container_access = ''blob'', container_blobs = [example_blob]\<rparr>"
  by (simp add: container_of_def example_world_def)

lemma new_docs_valid: "valid_container_name ''new-docs''"
  by (simp add: valid_container_name_def name_char_def)



section \<open>Creating a container\<close>

text \<open>
  Claim C2, at the name \<open>ab\<close>. The name is too short, so it violates the length rule, yet
  it passes the check of the handler: the handler calls the storage service's create with
  it, and the answer is status 500 (the service refuses the name), not 400.
\<close>

theorem short_name_counterexample:
  "violates Length ''ab''
   \<and> res_status (fst (post_api_containers (Some ''ab'') example_world)) = 500
   \<and> calls (service (snd (post_api_containers (Some ''ab'') example_world))) =
       [Create ''ab'' ''blob'']"
  by (simp add: post_api_containers_def name_regex_test_def name_char_def
      getBlobServiceClient_def example_world_def container_create_def Let_def log_call_def
      valid_container_name_def create_catch_def res_status_json_def)

text \<open>
  Claim C2, as the handler does it. A request whose name is missing, empty or holds a
  character outside \<open>[a-z0-9-]\<close> gets status 400 with the character-set message and the
  world is unchanged, so no storage call is made; in particular the name \<open>AB\<close> is refused
  so. A name that is not empty and holds only characters of the class passes the check,
  whatever its length and its hyphens: with a configured connection the handler calls the
  storage service's create with it.
\<close>

theorem post_api_containers_guard:
  "((body_name = None \<or> (\<exists>n. body_name = Some n \<and> (violates Empty n \<or> violates Charset n)))
      \<longrightarrow> post_api_containers body_name w =
            (res_status_json 400 (error_body
               ''Container name must contain only lowercase letters, numbers, and hyphens''), w))
   \<and> post_api_containers (Some ''AB'') w =
        (res_status_json 400 (error_body
           ''Container name must contain only lowercase letters, numbers, and hyphens''), w)
   \<and> (\<forall>n. body_name = Some n \<and> \<not> violates Empty n \<and> \<not> violates Charset n
          \<and> getBlobServiceClient w = Inr ()
        \<longrightarrow> calls (service (snd (post_api_containers body_name w))) =
              calls (service w) @ [Create n ''blob''])"
proof -
  have 1: "(body_name = None \<or> (\<exists>n. body_name = Some n \<and> (violates Empty n \<or> violates Charset n)))
      \<longrightarrow> post_api_containers body_name w =
            (res_status_json 400 (error_body
               ''Container name must contain only lowercase letters, numbers, and hyphens''), w)"
    using guard_rejects_iff by (auto simp: post_api_containers_def simp del: violates.simps)
  have 2: "post_api_containers (Some ''AB'') w =
        (res_status_json 400 (error_body
           ''Container name must contain only lowercase letters, numbers, and hyphens''), w)"
    by (simp add: post_api_containers_def name_regex_test_def name_char_def)
  have 3: "\<forall>n. body_name = Some n \<and> \<not> violates Empty n \<and> \<not> violates Charset n
          \<and> getBlobServiceClient w = Inr ()
        \<longrightarrow> calls (service (snd (post_api_containers body_name w))) =
              calls (service w) @ [Create n ''blob'']"
    using guard_rejects_iff
    by (auto simp: post_api_containers_def container_create_def Let_def log_call_def
        simp del: violates.simps)
  from 1 2 3 show ?thesis by blast
qed

theorem post_api_containers_guard_witness:
  "violates Charset ''my_docs''
   \<and> res_status (fst (post_api_containers (Some ''my_docs'') example_world)) = 400
   \<and> snd (post_api_containers (Some ''my_docs'') example_world) = example_world
   \<and> \<not> violates Empty ''a--b'' \<and> \<not> violates Charset ''a--b''
   \<and> getBlobServiceClient example_world = Inr ()
   \<and> calls (service (snd (post_api_containers (Some ''a--b'') example_world))) =
       [Create ''a--b'' ''blob'']"
proof -
  have c: "violates Charset ''my_docs''" by (simp add: name_char_def)
  have e: "\<not> violates Empty ''a--b'' \<and> \<not> violates Charset ''a--b''"
    by (simp add: name_char_def)
  have g: "getBlobServiceClient example_world = Inr ()"
    by (rule getBlobServiceClient_reachable [OF example_reachable])
  from post_api_containers_guard [of "Some ''my_docs''" example_world] c
  have 1: "post_api_containers (Some ''my_docs'') example_world =
             (res_status_json 400 (error_body
               ''Container name must contain only lowercase letters, numbers, and hyphens''),
              example_world)"
    by blast
  from post_api_containers_guard [of "Some ''a--b''" example_world] e g
  have 2: "calls (service (snd (post_api_containers (Some ''a--b'') example_world))) =
             calls (service example_world) @ [Create ''a--b'' ''blob'']"
    by blast
  have 3: "calls (service example_world) = []" by (simp add: example_world_def)
  from c e g 1 2 3 show ?thesis by (simp add: res_status_json_def)
qed

text \<open>
  Claim C7. With a reachable backend whose containers have names of the data model, a
  request to create a container whose name is in use gets status 409 with the message
  that the container exists, and the containers of the service, with their blobs, are
  what they were.
\<close>

theorem create_existing_is_conflict:
  assumes "reachable w" "names_valid (service w)" "container_of w n = Some ct"
  shows "fst (post_api_containers (Some n) w) =
           res_status_json 409 (error_body ''Container already exists'')
       \<and> containers (service (snd (post_api_containers (Some n) w))) = containers (service w)"
proof -
  from assms(3) have "n \<in> fst ` set (containers (service w))"
    by (auto simp: container_of_def dest: map_of_SomeD intro: rev_image_eqI)
  with assms(2) have v: "valid_container_name n" by (auto simp: names_valid_def)
  from assms(1) have on: "online (service w)" by (simp add: reachable_def)
  show ?thesis
    using valid_name_passes_guard [OF v] v on assms(3) getBlobServiceClient_reachable [OF assms(1)]
    by (simp add: post_api_containers_def container_create_def Let_def log_call_def
        container_of_def create_catch_def)
qed

theorem create_existing_is_conflict_witness:
  "reachable example_world \<and> names_valid (service example_world)
   \<and> container_of example_world ''test-docs'' \<noteq> None
   \<and> res_status (fst (post_api_containers (Some ''test-docs'') example_world)) = 409
   \<and> containers (service (snd (post_api_containers (Some ''test-docs'') example_world))) =
       containers (service example_world)"
  using create_existing_is_conflict [OF example_reachable example_names_valid example_container]
    example_reachable example_names_valid example_container
  by (simp add: res_status_json_def)


section \<open>Uploading a file\<close>

text \<open>
  Claim C3, at a file of the declared type \<open>application/zip\<close>, which is not in the
  allow-list. The filter's error is a plain \<open>Error\<close>, which the error handling middleware
  answers with status 500 and the message \<open>Internal server error\<close>, not with status 400
  and the filter's message. The world is unchanged: no storage call is made.
\<close>

theorem unsupported_type_is_internal_error:
  "post_api_upload ''1f0e'' ''2024-01-03T00:00:00.000Z'' ''test-docs''
       (Some (FilePart ''archive.zip'' ''application/zip'' [80, 75, 3, 4])) example_world =
     (res_status_json 500 (error_body ''Internal server error''), example_world)"
  by (simp add: post_api_upload_def upload_single_def fileFilter_def allowedTypes_def
      error_middleware_def)

lemma put_blob_has: "b \<in> set (put_blob b bs)"
  by (simp add: put_blob_def)

lemma upload_handler_reachable:
  assumes "reachable w" "valid_container_name c"
  shows "\<exists>ct.
     fst (upload_handler uuid now c (Some f) w) =
       res_json (JObject
         [(''message'', JString ''File uploaded successfully''),
          (''filename'', JString (uuid @ ''-'' @ originalname f)),
          (''originalName'', JString (originalname f)),
          (''url'', JString (blob_url (service w) c (uuid @ ''-'' @ originalname f))),
          (''size'', JNumber (size_bytes f)),
          (''container'', JString c)])
     \<and> container_of (snd (upload_handler uuid now c (Some f) w)) c = Some ct
     \<and> \<lparr>blob_name = uuid @ ''-'' @ originalname f, blob_data = buffer f,
         blob_contentType = mimetype f,
         blob_metadata = Some [(''originalName'', originalname f), (''uploadDate'', now),
                               (''fileSize'', toString (size_bytes f))],
         blob_lastModified = now\<rparr> \<in> set (container_blobs ct)"
proof -
  from assms(1) have on: "online (service w)" by (simp add: reachable_def)
  show ?thesis
  proof (cases "container_of w c")
    case None
    then have m: "map_of (containers (service w)) c = None" by (simp add: container_of_def)
    show ?thesis
      using on m
      by (simp add: upload_handler_def getContainerClient_missing [OF assms None]
          blob_uploadData_def Let_def log_call_def map_of_snoc_missing
          container_of_def update_conv' put_blob_has blob_url_def container_url_def
          del: map_of_append)
  next
    case (Some ct)
    then have m: "map_of (containers (service w)) c = Some ct" by (simp add: container_of_def)
    show ?thesis
      using on m
      by (simp add: upload_handler_def getContainerClient_existing [OF assms Some]
          blob_uploadData_def Let_def log_call_def
          container_of_def update_conv' put_blob_has blob_url_def container_url_def)
  qed
qed

text \<open>
  Claim C5, at a file of exactly the ceiling, 104857600 bytes, of an allowed type, sent to
  an existing container on a reachable backend, with an upload library that raises the
  limit when the size reaches it. The request is refused with status 400 and the
  too-large message, and the world is unchanged.
\<close>

theorem upload_at_ceiling_counterexample:
  "''application/pdf'' \<in> set allowedTypes
   \<and> length (replicate 104857600 (0 :: byte)) \<le> fileSize
   \<and> reachable example_world \<and> valid_container_name ''test-docs''
   \<and> post_api_upload ''7a1c'' ''2024-01-03T00:00:00.000Z'' ''test-docs''
        (Some (FilePart ''full.pdf'' ''application/pdf'' (replicate 104857600 0)))
        example_world =
      (res_status_json 400 (error_body ''File too large. Maximum size is 100MB.''),
       example_world)"
proof -
  have l: "limit_at_size example_world" by (simp add: example_world_def)
  have "post_api_upload ''7a1c'' ''2024-01-03T00:00:00.000Z'' ''test-docs''
        (Some (FilePart ''full.pdf'' ''application/pdf'' (replicate 104857600 0)))
        example_world =
      (res_status_json 400 (error_body ''File too large. Maximum size is 100MB.''),
       example_world)"
    by (simp add: allowedTypes_def fileSize_def l post_api_upload_def upload_single_def
        fileFilter_def limit_reached_def error_middleware_def)
  then show ?thesis
    by (simp add: allowedTypes_def fileSize_def example_reachable example_name_valid)
qed

text \<open>
  The service refuses a container name outside the data model, so an upload into such a
  container ends in the handler's catch: status 500 at the name \<open>AB\<close>.
\<close>

lemma upload_bad_container_name:
  "res_status (fst (post_api_upload ''7a1c'' ''2024-01-03T00:00:00.000Z'' ''AB''
        (Some (FilePart ''report.pdf'' ''application/pdf'' [37, 80, 68, 70]))
        example_world)) = 500"
  by (simp add: post_api_upload_def upload_single_def fileFilter_def allowedTypes_def
      limit_reached_def fileSize_def upload_handler_def getContainerClient_def
      getBlobServiceClient_def container_createIfNotExists_def Let_def log_call_def
      valid_container_name_def example_world_def res_status_json_def)

text \<open>
  Claim C5, as the server does it. An upload of a file whose declared type is in the
  allow-list and whose size is below the ceiling, or equal to it where the installed
  upload library accepts a file of exactly the ceiling, into a container of the data model
  on a reachable backend, succeeds: the status is 200, the \<open>size\<close> of the response is the
  number of bytes of the file, its \<open>originalName\<close> is the file's name, its \<open>filename\<close> is
  the random identifier, a hyphen and the file's name; and the container then holds a blob
  of that name with the file's bytes, its declared type and its name as the
  \<open>originalName\<close> tag.
\<close>

theorem upload_succeeds:
  assumes "mime \<in> set allowedTypes"
    "length bytes < fileSize \<or> (length bytes = fileSize \<and> \<not> limit_at_size w)"
    "reachable w" "valid_container_name c"
  shows "res_status (fst (post_api_upload uuid now c (Some (FilePart fname mime bytes)) w)) = 200
    \<and> field ''size'' (res_body (fst (post_api_upload uuid now c (Some (FilePart fname mime bytes)) w)))
        = Some (JNumber (length bytes))
    \<and> field ''originalName''
          (res_body (fst (post_api_upload uuid now c (Some (FilePart fname mime bytes)) w)))
        = Some (JString fname)
    \<and> field ''filename''
          (res_body (fst (post_api_upload uuid now c (Some (FilePart fname mime bytes)) w)))
        = Some (JString (uuid @ ''-'' @ fname))
    \<and> (\<exists>ct b. container_of (snd (post_api_upload uuid now c (Some (FilePart fname mime bytes)) w)) c
                  = Some ct
          \<and> b \<in> set (container_blobs ct) \<and> blob_name b = uuid @ ''-'' @ fname
          \<and> blob_data b = bytes \<and> blob_contentType b = mime
          \<and> originalName_tag b = Some fname)"
proof -
  let ?f = "\<lparr>originalname = fname, mimetype = mime, buffer = bytes, size_bytes = length bytes\<rparr>"
  let ?b = "\<lparr>blob_name = uuid @ ''-'' @ fname, blob_data = bytes,
         blob_contentType = mime,
         blob_metadata = Some [(''originalName'', fname), (''uploadDate'', now),
                               (''fileSize'', toString (length bytes))],
         blob_lastModified = now\<rparr>"
  from assms(2) have nl: "\<not> limit_reached (limit_at_size w) (length bytes)"
    by (auto simp: limit_reached_under limit_reached_at)
  from assms(1) nl
  have u: "upload_single (limit_at_size w) (Some (FilePart fname mime bytes)) = Inr (Some ?f)"
    by (simp add: upload_single_def fileFilter_def)
  have r: "post_api_upload uuid now c (Some (FilePart fname mime bytes)) w =
             upload_handler uuid now c (Some ?f) w"
    by (simp add: post_api_upload_def u)
  from upload_handler_reachable [OF assms(3,4), of uuid now ?f] obtain ct where
    h: "fst (upload_handler uuid now c (Some ?f) w) =
       res_json (JObject
         [(''message'', JString ''File uploaded successfully''),
          (''filename'', JString (uuid @ ''-'' @ fname)),
          (''originalName'', JString fname),
          (''url'', JString (blob_url (service w) c (uuid @ ''-'' @ fname))),
          (''size'', JNumber (length bytes)),
          (''container'', JString c)])"
    and k: "container_of (snd (upload_handler uuid now c (Some ?f) w)) c = Some ct"
    and i: "?b \<in> set (container_blobs ct)"
    by auto
  have tag: "originalName_tag ?b = Some fname" by (simp add: originalName_tag_def)
  from k i tag have
    "\<exists>ct b. container_of (snd (upload_handler uuid now c (Some ?f) w)) c = Some ct
          \<and> b \<in> set (container_blobs ct) \<and> blob_name b = uuid @ ''-'' @ fname
          \<and> blob_data b = bytes \<and> blob_contentType b = mime
          \<and> originalName_tag b = Some fname"
    by (intro exI [of _ ct] exI [of _ ?b]) simp
  then show ?thesis
    unfolding r by (simp add: h res_json_def)
qed

theorem upload_succeeds_witness:
  "''application/pdf'' \<in> set allowedTypes \<and> length [37, 80, 68, 70 :: byte] < fileSize
   \<and> reachable example_world \<and> valid_container_name ''new-docs''
   \<and> res_status (fst (post_api_upload ''7a1c'' ''2024-01-03T00:00:00.000Z'' ''new-docs''
        (Some (FilePart ''report.pdf'' ''application/pdf'' [37, 80, 68, 70])) example_world)) = 200
   \<and> field ''size'' (res_body (fst (post_api_upload ''7a1c'' ''2024-01-03T00:00:00.000Z''
        ''new-docs'' (Some (FilePart ''report.pdf'' ''application/pdf'' [37, 80, 68, 70]))
        example_world))) = Some (JNumber 4)
   \<and> field ''filename'' (res_body (fst (post_api_upload ''7a1c'' ''2024-01-03T00:00:00.000Z''
        ''new-docs'' (Some (FilePart ''report.pdf'' ''application/pdf'' [37, 80, 68, 70]))
        example_world))) = Some (JString ''7a1c-report.pdf'')
   \<and> length (replicate 104857600 (0 :: byte)) = fileSize
   \<and> \<not> limit_at_size example_world_lenient \<and> reachable example_world_lenient
   \<and> res_status (fst (post_api_upload ''7a1c'' ''2024-01-03T00:00:00.000Z'' ''new-docs''
        (Some (FilePart ''full.pdf'' ''application/pdf'' (replicate 104857600 0)))
        example_world_lenient)) = 200
   \<and> field ''size'' (res_body (fst (post_api_upload ''7a1c'' ''2024-01-03T00:00:00.000Z''
        ''new-docs'' (Some (FilePart ''full.pdf'' ''application/pdf'' (replicate 104857600 0)))
        example_world_lenient))) = Some (JNumber 104857600)"
proof -
  have a: "''application/pdf'' \<in> set allowedTypes" by (simp add: allowedTypes_def)
  have s: "length [37, 80, 68, 70 :: byte] < fileSize" by (simp add: fileSize_def)
  have e: "length (replicate 104857600 (0 :: byte)) = fileSize" by (simp add: fileSize_def)
  have n: "\<not> limit_at_size example_world_lenient"
    by (simp add: example_world_lenient_def)
  have rl: "reachable example_world_lenient"
    using example_reachable by (simp add: reachable_def example_world_lenient_def)
  from s have s': "length [37, 80, 68, 70 :: byte] < fileSize
      \<or> (length [37, 80, 68, 70 :: byte] = fileSize \<and> \<not> limit_at_size example_world)"
    by blast
  from e n have e': "length (replicate 104857600 (0 :: byte)) < fileSize
      \<or> (length (replicate 104857600 (0 :: byte)) = fileSize
          \<and> \<not> limit_at_size example_world_lenient)"
    by blast
  note small = upload_succeeds [OF a s' example_reachable new_docs_valid,
      of "''7a1c''" "''2024-01-03T00:00:00.000Z''" "''report.pdf''"]
  note full = upload_succeeds [OF a e' rl new_docs_valid,
      of "''7a1c''" "''2024-01-03T00:00:00.000Z''" "''full.pdf''"]
  from small full a s e n rl example_reachable new_docs_valid
  show ?thesis by simp
qed

text \<open>
  Claim C6, at a file that exceeds the ceiling and whose declared type is not in the
  allow-list. The filter runs before the bytes are read, so the request ends with the
  filter's error: status 500, not status 400 with the too-large message.
\<close>

theorem oversize_unsupported_counterexample:
  "length (replicate 104857601 (0 :: byte)) > fileSize
   \<and> post_api_upload ''1f0e'' ''2024-01-03T00:00:00.000Z'' ''test-docs''
       (Some (FilePart ''big.zip'' ''application/zip'' (replicate 104857601 0))) example_world =
     (res_status_json 500 (error_body ''Internal server error''), example_world)"
  by (simp add: post_api_upload_def upload_single_def fileFilter_def allowedTypes_def
      error_middleware_def fileSize_def)

text \<open>
  Claim C6, as the server does it. An upload whose file exceeds the ceiling is rejected
  and leaves the world unchanged: no storage call, nothing persisted. When the declared
  type of the file is in the allow-list, the status is 400 and the message says that the
  file is too large.
\<close>

theorem oversize_upload_rejected:
  "length bytes > fileSize \<Longrightarrow>
     snd (post_api_upload uuid now c (Some (FilePart fname mime bytes)) w) = w
     \<and> res_status (fst (post_api_upload uuid now c (Some (FilePart fname mime bytes)) w)) \<noteq> 200
     \<and> (mime \<in> set allowedTypes \<longrightarrow>
          fst (post_api_upload uuid now c (Some (FilePart fname mime bytes)) w) =
            res_status_json 400 (error_body ''File too large. Maximum size is 100MB.''))"
  by (simp add: post_api_upload_def upload_single_def fileFilter_def error_middleware_def
      res_status_json_def limit_reached_over)


theorem oversize_upload_rejected_witness:
  "length (replicate 104857601 (0 :: byte)) > fileSize
   \<and> ''application/pdf'' \<in> set allowedTypes
   \<and> post_api_upload ''7a1c'' ''2024-01-03T00:00:00.000Z'' ''test-docs''
        (Some (FilePart ''big.pdf'' ''application/pdf'' (replicate 104857601 0))) example_world =
      (res_status_json 400 (error_body ''File too large. Maximum size is 100MB.''), example_world)"
proof -
  have l: "length (replicate 104857601 (0 :: byte)) > fileSize" by (simp add: fileSize_def)
  have a: "''application/pdf'' \<in> set allowedTypes" by (simp add: allowedTypes_def)
  from oversize_upload_rejected [OF l, of "''7a1c''" "''2024-01-03T00:00:00.000Z''"
      "''test-docs''" "''big.pdf''" "''application/pdf''" example_world] a l
  show ?thesis by (simp add: prod_eq_iff)
qed


section \<open>Listing the files of a container\<close>

text \<open>
  Claim C8, at a blob whose \<open>originalName\<close> tag is present and is the empty string. The
  entry's \<open>originalName\<close> is the blob's generated name, not the tag: \<open>||\<close> takes the
  empty string for absent.
\<close>

theorem empty_tag_counterexample:
  "originalName_tag empty_tag_blob = Some []
   \<and> fst (get_api_container_files ''test-docs'' empty_tag_world) =
       res_json (JArray [JObject
         [(''name'', JString ''9c2b-notes.txt''),
          (''originalName'', JString ''9c2b-notes.txt''),
          (''lastModified'', JString ''2024-01-02T00:00:00.000Z''),
          (''size'', JNumber 2),
          (''contentType'', JString ''text/plain''),
          (''url'', JString
             ''http://127.0.0.1:10000/devstoreaccount1/test-docs/9c2b-notes.txt'')]])"
  by (simp add: originalName_tag_def empty_tag_blob_def empty_tag_world_def
      get_api_container_files_def getContainerClient_def getBlobServiceClient_def
      container_createIfNotExists_def container_listBlobsFlat_def Let_def log_call_def
      example_name_valid file_entry_def container_url_def numeral_2_eq_2)

lemma file_entry_fields:
  "keys (file_entry url b) =
     [''name'', ''originalName'', ''lastModified'', ''size'', ''contentType'', ''url'']
   \<and> field ''name'' (file_entry url b) = Some (JString (blob_name b))
   \<and> field ''originalName'' (file_entry url b) =
       Some (JString (case originalName_tag b of
                        None \<Rightarrow> blob_name b
                      | Some t \<Rightarrow> if t = [] then blob_name b else t))
   \<and> field ''lastModified'' (file_entry url b) = Some (JString (blob_lastModified b))
   \<and> field ''size'' (file_entry url b) = Some (JNumber (length (blob_data b)))
   \<and> field ''contentType'' (file_entry url b) = Some (JString (blob_contentType b))"
  by (cases "originalName_tag b") (simp_all add: file_entry_def)

lemma files_listing_reachable:
  assumes "reachable w" "valid_container_name c"
  shows "fst (get_api_container_files c w) =
           res_json (JArray (map (file_entry (container_url (service w) c))
             (case container_of w c of None \<Rightarrow> [] | Some ct \<Rightarrow> container_blobs ct)))"
proof -
  from assms(1) have on: "online (service w)" by (simp add: reachable_def)
  show ?thesis
  proof (cases "container_of w c")
    case None
    then have m: "map_of (containers (service w)) c = None" by (simp add: container_of_def)
    show ?thesis
      using on m
      by (simp add: get_api_container_files_def getContainerClient_missing [OF assms None]
          container_listBlobsFlat_def Let_def log_call_def map_of_snoc_missing new_container_def
          None container_url_def del: map_of_append)
  next
    case (Some ct)
    then have m: "map_of (containers (service w)) c = Some ct" by (simp add: container_of_def)
    show ?thesis
      using on m
      by (simp add: get_api_container_files_def getContainerClient_existing [OF assms Some]
          container_listBlobsFlat_def Let_def log_call_def Some container_url_def)
  qed
qed

text \<open>
  Claim C8, as the handler does it. On a reachable backend the listing of a container of
  the data model has one entry for each blob of the container, in order; each entry has
  the keys \<open>name\<close>, \<open>originalName\<close>, \<open>lastModified\<close>, \<open>size\<close>, \<open>contentType\<close> and
  \<open>url\<close>, and its \<open>originalName\<close> is the blob's \<open>originalName\<close> tag when the tag is
  present and not empty, and the blob's generated name when the tag is absent or empty.
\<close>

theorem files_listing_entries:
  assumes "reachable w" "valid_container_name c"
  shows "\<exists>es bs. fst (get_api_container_files c w) = res_json (JArray es)
      \<and> bs = (case container_of w c of None \<Rightarrow> [] | Some ct \<Rightarrow> container_blobs ct)
      \<and> length es = length bs
      \<and> (\<forall>i < length bs.
            keys (es ! i) =
              [''name'', ''originalName'', ''lastModified'', ''size'', ''contentType'', ''url'']
          \<and> field ''name'' (es ! i) = Some (JString (blob_name (bs ! i)))
          \<and> field ''originalName'' (es ! i) =
              Some (JString (case originalName_tag (bs ! i) of
                               None \<Rightarrow> blob_name (bs ! i)
                             | Some t \<Rightarrow> if t = [] then blob_name (bs ! i) else t))
          \<and> field ''lastModified'' (es ! i) = Some (JString (blob_lastModified (bs ! i)))
          \<and> field ''size'' (es ! i) = Some (JNumber (length (blob_data (bs ! i))))
          \<and> field ''contentType'' (es ! i) = Some (JString (blob_contentType (bs ! i))))"
proof -
  let ?bs = "case container_of w c of None \<Rightarrow> [] | Some ct \<Rightarrow> container_blobs ct"
  let ?url = "container_url (service w) c"
  note r = files_listing_reachable [OF assms]
  show ?thesis
  proof (intro exI [of _ "map (file_entry ?url) ?bs"] exI [of _ ?bs] conjI allI impI)
    show "fst (get_api_container_files c w) = res_json (JArray (map (file_entry ?url) ?bs))"
      by (rule r)
  qed (simp_all add: file_entry_fields)
qed

theorem files_listing_entries_witness:
  "reachable example_world \<and> valid_container_name ''test-docs''
   \<and> (\<exists>es. fst (get_api_container_files ''test-docs'' example_world) = res_json (JArray es)
        \<and> length es = 1
        \<and> field ''originalName'' (es ! 0) = Some (JString ''report.pdf'')
        \<and> field ''size'' (es ! 0) = Some (JNumber 4))"
proof -
  from files_listing_entries [OF example_reachable example_name_valid] obtain es bs where
    r: "fst (get_api_container_files ''test-docs'' example_world) = res_json (JArray es)"
    and b: "bs = (case container_of example_world ''test-docs'' of None \<Rightarrow> []
                  | Some ct \<Rightarrow> container_blobs ct)"
    and l: "length es = length bs"
    and e: "\<forall>i < length bs.
            keys (es ! i) =
              [''name'', ''originalName'', ''lastModified'', ''size'', ''contentType'', ''url'']
          \<and> field ''name'' (es ! i) = Some (JString (blob_name (bs ! i)))
          \<and> field ''originalName'' (es ! i) =
              Some (JString (case originalName_tag (bs ! i) of
                               None \<Rightarrow> blob_name (bs ! i)
                             | Some t \<Rightarrow> if t = [] then blob_name (bs ! i) else t))
          \<and> field ''lastModified'' (es ! i) = Some (JString (blob_lastModified (bs ! i)))
          \<and> field ''size'' (es ! i) = Some (JNumber (length (blob_data (bs ! i))))
          \<and> field ''contentType'' (es ! i) = Some (JString (blob_contentType (bs ! i)))"
    by blast
  from b have bs: "bs = [example_blob]" by (simp add: example_container)
  from e bs have "field ''originalName'' (es ! 0) = Some (JString ''report.pdf'')
      \<and> field ''size'' (es ! 0) = Some (JNumber 4)"
    by (simp add: originalName_tag_def example_blob_def)
  with r l bs have "\<exists>es. fst (get_api_container_files ''test-docs'' example_world) =
          res_json (JArray es)
        \<and> length es = 1
        \<and> field ''originalName'' (es ! 0) = Some (JString ''report.pdf'')
        \<and> field ''size'' (es ! 0) = Some (JNumber 4)"
    by (intro exI [of _ es]) simp
  with example_reachable example_name_valid show ?thesis by blast
qed




section \<open>Deleting a file\<close>

text \<open>
  Claim C4, at a blob name that the container does not hold. The status is 500, not 404.
\<close>

theorem delete_missing_counterexample:
  "\<not> blob_exists example_world ''test-docs'' ''missing.pdf''
   \<and> res_status (fst (delete_api_container_file ''test-docs'' ''missing.pdf'' example_world)) = 500"
  by (simp add: blob_exists_def container_of_def example_world_def example_blob_def
      delete_api_container_file_def getContainerClient_def getBlobServiceClient_def
      container_createIfNotExists_def blob_delete_def Let_def log_call_def
      example_name_valid res_status_json_def)


text \<open>
  Claim C4, as the handler does it. A request to delete a blob that the container does not
  hold gets status 500 with the message \<open>Failed to delete file\<close>, never the
  acknowledgement of a deletion, whatever the state of the backend.
\<close>

theorem delete_missing_blob_fails:
  "\<not> blob_exists w c f \<Longrightarrow>
     fst (delete_api_container_file c f w) =
       res_status_json 500 (error_body ''Failed to delete file'')"
proof -
  assume nb: "\<not> blob_exists w c f"
  obtain r w1 where g: "getContainerClient c w = (r, w1)" by (cases "getContainerClient c w")
  from getContainerClient_cases [OF g] show ?thesis
  proof
    assume "\<exists>e. r = Inl e"
    with g show ?thesis by (auto simp: delete_api_container_file_def)
  next
    assume a: "r = Inr c \<and> online (service w1) \<and>
      container_of w1 c = (case container_of w c of None \<Rightarrow> Some (new_container ''blob'')
                                                   | Some ct \<Rightarrow> Some ct)"
    with nb have "\<exists>ct. map_of (containers (service w1)) c = Some ct
         \<and> f \<notin> blob_name ` set (container_blobs ct)"
      by (auto simp: blob_exists_def container_of_def new_container_def split: option.splits)
    with a g show ?thesis
      by (auto simp: delete_api_container_file_def blob_delete_def Let_def log_call_def)
  qed
qed

theorem delete_missing_blob_fails_witness:
  "\<not> blob_exists example_world ''test-docs'' ''missing.pdf''
   \<and> res_status (fst (delete_api_container_file ''test-docs'' ''missing.pdf'' example_world)) = 500"
proof -
  have n: "\<not> blob_exists example_world ''test-docs'' ''missing.pdf''"
    by (simp add: blob_exists_def example_container example_blob_def)
  from delete_missing_blob_fails [OF n] n show ?thesis
    by (simp add: res_status_json_def)
qed


section \<open>The health check\<close>

text \<open>
  Claim C9. The health check answers every request with status 200 and an object of the
  two keys \<open>status\<close> and \<open>timestamp\<close>, the status \<open>OK\<close> and the time of the request. It
  has no failing branch and leaves the world as it is: it makes no storage call.
\<close>

theorem health_never_fails:
  "res_status (fst (get_api_health now w)) = 200
   \<and> keys (res_body (fst (get_api_health now w))) = [''status'', ''timestamp'']
   \<and> field ''status'' (res_body (fst (get_api_health now w))) = Some (JString ''OK'')
   \<and> field ''timestamp'' (res_body (fst (get_api_health now w))) = Some (JString now)
   \<and> snd (get_api_health now w) = w"
  by (simp add: get_api_health_def res_json_def)

end
